theory Spec2Isabelle
  imports Complex_Main
begin

section \<open>Data model\<close>

text \<open>
  The try-on pipeline of \<^verbatim>\<open>src/main.js\<close> (lines 602-1206) is embedded here as pure
  functions over an explicit record of the module's global variables and of the DOM
  elements those functions touch.

  JavaScript numbers are modelled as \<^typ>\<open>real\<close>: the arithmetic is the exact
  arithmetic that the source's formulas denote, and rounding, NaN and signed zeros of
  IEEE doubles are outside the model.  \<^verbatim>\<open>null\<close>/\<^verbatim>\<open>undefined\<close> is \<^const>\<open>None\<close>.
\<close>

text \<open>One entry of \<^verbatim>\<open>results.poseLandmarks\<close>, as the pose engine delivers it.\<close>

record Landmark =
  lm_x :: real
  lm_y :: real
  lm_z :: real
  visibility :: real

text \<open>
  The per-frame result object.  \<^verbatim>\<open>poseLandmarks\<close> may be missing; an entry of the
  list may be missing as well (the source reads entries with \<^verbatim>\<open>?.\<close>).
\<close>

record PoseResults =
  poseLandmarks :: "Landmark option list option"

text \<open>A vector of three components (\<^verbatim>\<open>position\<close>, \<^verbatim>\<open>rotation\<close> and \<^verbatim>\<open>scale\<close> of an object).\<close>

record Vec3 =
  vx :: real
  vy :: real
  vz :: real

text \<open>The fields of the tracked object (\<^verbatim>\<open>arShoeModel\<close>) that the pipeline writes.\<close>

record Object3D =
  position :: Vec3
  rotation :: Vec3
  scale3 :: Vec3
  visible :: bool

text \<open>
  The overlay canvas.  Its content is kept as the list of marks drawn since it was last
  cleared; one mark stands for one call of \<^verbatim>\<open>drawFootPoint\<close>, \<^verbatim>\<open>drawFootConnection\<close>
  or \<^verbatim>\<open>fillText\<close>.
\<close>

datatype overlay_mark =
    FootPoint real real string string
  | FootConnection real real real real string
  | HintText string real real string

record Canvas =
  cv_width :: nat
  cv_height :: nat
  drawn :: "overlay_mark list"

record Size =
  sz_width :: nat
  sz_height :: nat

record Video =
  videoWidth :: nat
  videoHeight :: nat

record Camera =
  aspect :: real

record Renderer =
  r_size :: Size
  frames_rendered :: nat

datatype track_state = Live | Ended

text \<open>The element \<^verbatim>\<open>#ar-status\<close>.\<close>

record StatusElement =
  textContent :: string
  className :: string

text \<open>
  The module's variables (lines 607-617), the media streams they refer to, and the DOM
  elements looked up by \<^verbatim>\<open>getElementById\<close>; an element that the page does not have
  is \<^const>\<open>None\<close>.  \<^verbatim>\<open>videoStream\<close> holds a reference to a stream object, whose tracks
  live in \<open>streams\<close>.  An element's \<^verbatim>\<open>classList\<close> is the set of its class names.
\<close>

record ARState =
  isARMode :: bool
  arVideo :: "Video option"
  arOverlayCanvas :: "Canvas option"
  arOverlayContext :: bool
  ar3DCanvas :: "Size option"
  arCamera :: "Camera option"
  arRenderer :: "Renderer option"
  arScene :: bool
  arShoeModel :: "Object3D option"
  videoStream :: "nat option"
  streams :: "nat \<Rightarrow> track_state list"
  el_status :: "StatusElement option"
  el_arContainer :: "string set option"
  el_sceneContainer :: "string option"
  el_panel :: "string set option"
  el_arModeBtn :: "string set option"
  el_normalModeBtn :: "string set option"
  el_exportBtn :: "string set option"
  el_arCaptureBtn :: "string set option"

section \<open>Status text\<close>

text \<open>The emoji of the status messages, as their UTF-8 bytes.\<close>

definition emoji_footprints :: string where
  "emoji_footprints = [CHR 0xF0, CHR 0x9F, CHR 0x91, CHR 0xA3]"

definition emoji_shoe :: string where
  "emoji_shoe = [CHR 0xF0, CHR 0x9F, CHR 0x91, CHR 0x9F]"

definition emoji_sparkles :: string where
  "emoji_sparkles = [CHR 0xE2, CHR 0x9C, CHR 0xA8]"

definition emoji_camera :: string where
  "emoji_camera = [CHR 0xF0, CHR 0x9F, CHR 0x93, CHR 0xB8]"

definition emoji_warning :: string where
  "emoji_warning = [CHR 0xE2, CHR 0x9A, CHR 0xA0, CHR 0xEF, CHR 0xB8, CHR 0x8F]"

text \<open>\<^verbatim>\<open>updateARStatus(message, type)\<close>, lines 1199-1205.\<close>

definition updateARStatus :: "string \<Rightarrow> string \<Rightarrow> ARState \<Rightarrow> ARState" where
  "updateARStatus message type s =
     (case el_status s of
        None \<Rightarrow> s
      | Some statusElement \<Rightarrow>
          s\<lparr>el_status := Some (statusElement\<lparr>textContent := message,
                                               className := ''ar-status '' @ type\<rparr>)\<rparr>)"

section \<open>Landmark validation\<close>

text \<open>
  Lines 917-922: \<^verbatim>\<open>landmarks[i]?.visibility > 0.5 ? landmarks[i] : null\<close>.  An index
  beyond the list, or a missing entry, reads as \<^verbatim>\<open>undefined\<close>, whose comparison with
  0.5 is false.
\<close>

definition visibleLandmark :: "Landmark option list \<Rightarrow> nat \<Rightarrow> Landmark option" where
  "visibleLandmark landmarks i =
     (if i < length landmarks then
        (case landmarks ! i of
           None \<Rightarrow> None
         | Some l \<Rightarrow> if visibility l > 0.5 then Some l else None)
      else None)"

section \<open>Canvases and overlay\<close>

text \<open>
  \<^verbatim>\<open>resizeARCanvases\<close>, lines 1172-1196.  Assigning a canvas's width resets its
  content.
\<close>

definition resizeARCanvases :: "ARState \<Rightarrow> ARState" where
  "resizeARCanvases s =
     (case (arVideo s, arOverlayCanvas s, ar3DCanvas s) of
        (Some video, Some overlay, Some canvas3d) \<Rightarrow>
          (let vWidth = videoWidth video; vHeight = videoHeight video in
           if vWidth \<noteq> 0 \<and> vHeight \<noteq> 0 then
             s\<lparr>arOverlayCanvas :=
                  Some (overlay\<lparr>cv_width := vWidth, cv_height := vHeight, drawn := []\<rparr>),
               ar3DCanvas :=
                  Some (canvas3d\<lparr>sz_width := vWidth, sz_height := vHeight\<rparr>),
               arCamera :=
                  map_option (\<lambda>c. c\<lparr>aspect := real vWidth / real vHeight\<rparr>) (arCamera s),
               arRenderer :=
                  map_option (\<lambda>r. r\<lparr>r_size := \<lparr>sz_width = vWidth, sz_height = vHeight\<rparr>\<rparr>)
                    (arRenderer s)\<rparr>
           else s)
      | _ \<Rightarrow> s)"

text \<open>
  The drawing functions act on the overlay canvas.  They are called from
  \<^verbatim>\<open>onPoseResults\<close> only, behind its guard that the canvas and its context exist.
\<close>

definition withOverlay :: "(Canvas \<Rightarrow> Canvas) \<Rightarrow> ARState \<Rightarrow> ARState" where
  "withOverlay f s = s\<lparr>arOverlayCanvas := map_option f (arOverlayCanvas s)\<rparr>"

definition clearRect :: "Canvas \<Rightarrow> Canvas" where
  "clearRect c = c\<lparr>drawn := []\<rparr>"

definition draw :: "overlay_mark \<Rightarrow> Canvas \<Rightarrow> Canvas" where
  "draw m c = c\<lparr>drawn := drawn c @ [m]\<rparr>"

text \<open>\<^verbatim>\<open>drawPoseDetectionIndicator\<close>, lines 983-993.\<close>

definition drawPoseDetectionIndicator :: "Canvas \<Rightarrow> Canvas" where
  "drawPoseDetectionIndicator c =
     (let centerX = real (cv_width c) / 2; centerY = real (cv_height c) / 2 in
      draw (HintText ''Point camera at your feet'' centerX (centerY - 20) ''rgba(255, 255, 0, 0.7)'')
        (draw (HintText (emoji_camera @ '' Pose detection active'') centerX (centerY - 40)
                 ''rgba(255, 255, 0, 0.7)'') c))"

text \<open>\<^verbatim>\<open>drawNoPoseIndicator\<close>, lines 996-1006.\<close>

definition drawNoPoseIndicator :: "Canvas \<Rightarrow> Canvas" where
  "drawNoPoseIndicator c =
     (let centerX = real (cv_width c) / 2; centerY = real (cv_height c) / 2 in
      draw (HintText ''Make sure you are in the camera view'' centerX centerY
              ''rgba(255, 107, 107, 0.7)'')
        (draw (HintText (emoji_warning @ '' Looking for person...'') centerX (centerY - 20)
                 ''rgba(255, 107, 107, 0.7)'') c))"

text \<open>\<^verbatim>\<open>drawFootPoint\<close>, lines 1047-1066: a filled circle with a label.\<close>

definition drawFootPoint :: "real \<Rightarrow> real \<Rightarrow> string \<Rightarrow> string \<Rightarrow> Canvas \<Rightarrow> Canvas" where
  "drawFootPoint px py label color c = draw (FootPoint px py label color) c"

text \<open>\<^verbatim>\<open>drawFootConnection\<close>, lines 1069-1084: a dashed line from ankle to foot tip.\<close>

definition drawFootConnection ::
  "Landmark \<Rightarrow> Landmark \<Rightarrow> real \<Rightarrow> real \<Rightarrow> string \<Rightarrow> Canvas \<Rightarrow> Canvas" where
  "drawFootConnection ankle footIndex canvasWidth canvasHeight color c =
     (let ankleX = lm_x ankle * canvasWidth; ankleY = lm_y ankle * canvasHeight;
          footX = lm_x footIndex * canvasWidth; footY = lm_y footIndex * canvasHeight
      in draw (FootConnection ankleX ankleY footX footY color) c)"

text \<open>\<^verbatim>\<open>drawFootIndicators\<close>, lines 1009-1044.\<close>

definition drawFootIndicators ::
  "Landmark option \<Rightarrow> Landmark option \<Rightarrow> Landmark option \<Rightarrow> Landmark option
     \<Rightarrow> Canvas \<Rightarrow> Canvas" where
  "drawFootIndicators leftAnkle rightAnkle leftFootIndex rightFootIndex c =
     (let canvasWidth = real (cv_width c); canvasHeight = real (cv_height c);
          c1 = (case leftAnkle of None \<Rightarrow> c
                | Some l \<Rightarrow> drawFootPoint (lm_x l * canvasWidth) (lm_y l * canvasHeight)
                              (''L'' @ emoji_footprints) ''#00ff00'' c);
          c2 = (case rightAnkle of None \<Rightarrow> c1
                | Some l \<Rightarrow> drawFootPoint (lm_x l * canvasWidth) (lm_y l * canvasHeight)
                              (''R'' @ emoji_footprints) ''#00ff00'' c1);
          c3 = (case leftFootIndex of None \<Rightarrow> c2
                | Some l \<Rightarrow> drawFootPoint (lm_x l * canvasWidth) (lm_y l * canvasHeight)
                              (''L'' @ emoji_shoe) ''#ff6b6b'' c2);
          c4 = (case rightFootIndex of None \<Rightarrow> c3
                | Some l \<Rightarrow> drawFootPoint (lm_x l * canvasWidth) (lm_y l * canvasHeight)
                              (''R'' @ emoji_shoe) ''#ff6b6b'' c3)
      in case (rightAnkle, rightFootIndex) of
           (Some a, Some f) \<Rightarrow> drawFootConnection a f canvasWidth canvasHeight ''#00ff00'' c4
         | _ \<Rightarrow>
           (case (leftAnkle, leftFootIndex) of
              (Some a, Some f) \<Rightarrow> drawFootConnection a f canvasWidth canvasHeight ''#00ff00'' c4
            | _ \<Rightarrow> c4))"

section \<open>Placement\<close>

text \<open>
  \<^verbatim>\<open>Math.atan2(y, x)\<close> of the language's library, on real arguments: the angle in
  \<open>(-\<pi>, \<pi>]\<close> of the point \<open>(x, y)\<close>, and 0 at the origin.
\<close>

definition Math_atan2 :: "real \<Rightarrow> real \<Rightarrow> real" where
  "Math_atan2 y x =
     (if 0 < x then arctan (y / x)
      else if x < 0 then (if 0 \<le> y then arctan (y / x) + pi else arctan (y / x) - pi)
      else if 0 < y then pi / 2
      else if y < 0 then - (pi / 2)
      else 0)"

text \<open>
  Lines 1090-1104 of \<^verbatim>\<open>positionARShoe\<close>: the variables \<^verbatim>\<open>ankle\<close>, \<^verbatim>\<open>footIndex\<close>
  and \<^verbatim>\<open>isLeftFoot\<close> after the choice of the foot.
\<close>

definition selectFoot ::
  "Landmark option \<Rightarrow> Landmark option \<Rightarrow> Landmark option \<Rightarrow> Landmark option
     \<Rightarrow> Landmark option \<times> Landmark option \<times> bool" where
  "selectFoot leftAnkle rightAnkle leftFootIndex rightFootIndex =
     (if rightAnkle \<noteq> None \<and> rightFootIndex \<noteq> None then (rightAnkle, rightFootIndex, False)
      else if leftAnkle \<noteq> None \<and> leftFootIndex \<noteq> None then (leftAnkle, leftFootIndex, True)
      else (None, None, False))"

text \<open>\<^verbatim>\<open>positionARShoe\<close>, lines 1087-1169.\<close>

definition positionARShoe ::
  "Landmark option \<Rightarrow> Landmark option \<Rightarrow> Landmark option \<Rightarrow> Landmark option
     \<Rightarrow> ARState \<Rightarrow> ARState" where
  "positionARShoe leftAnkle rightAnkle leftFootIndex rightFootIndex s =
     (case arShoeModel s of
        None \<Rightarrow> s
      | Some model \<Rightarrow>
          if arCamera s = None then s
          else
            (case selectFoot leftAnkle rightAnkle leftFootIndex rightFootIndex of
               (Some ankle, Some footIndex, isLeftFoot) \<Rightarrow>
                 (let footCenterX = (lm_x ankle + lm_x footIndex) / 2;
                      footCenterY = (lm_y ankle + lm_y footIndex) / 2;
                      screenX = (footCenterX - 0.5) * 6;
                      screenY = - (footCenterY - 0.5) * 6;
                      footForwardOffset = 0.2;
                      offsetX = (lm_x footIndex - lm_x ankle) * footForwardOffset;
                      offsetY = - (lm_y footIndex - lm_y ankle) * footForwardOffset;
                      finalX = screenX + offsetX;
                      finalY = screenY + offsetY;
                      finalZ = - 2;
                      m1 = model\<lparr>position := \<lparr>vx = finalX, vy = finalY, vz = finalZ\<rparr>\<rparr>;
                      footDirectionX = lm_x footIndex - lm_x ankle;
                      footDirectionY = lm_y footIndex - lm_y ankle;
                      footAngle = Math_atan2 footDirectionY footDirectionX;
                      m2 = m1\<lparr>rotation := \<lparr>vx = 0, vy = 0, vz = - footAngle\<rparr>\<rparr>;
                      m3 = (if isLeftFoot then m2\<lparr>rotation := (rotation m2)\<lparr>vy := pi\<rparr>\<rparr>
                            else m2\<lparr>rotation := (rotation m2)\<lparr>vy := 0\<rparr>\<rparr>);
                      footLength = sqrt ((lm_x footIndex - lm_x ankle)\<^sup>2
                                         + (lm_y footIndex - lm_y ankle)\<^sup>2);
                      dynamicScale = max 0.05 (min 0.15 (footLength * 2));
                      m4 = m3\<lparr>scale3 := \<lparr>vx = dynamicScale, vy = dynamicScale, vz = dynamicScale\<rparr>\<rparr>
                  in s\<lparr>arShoeModel := Some (m4\<lparr>visible := True\<rparr>)\<rparr>)
             | _ \<Rightarrow> s\<lparr>arShoeModel := Some (model\<lparr>visible := False\<rparr>)\<rparr>))"

section \<open>The frame handler\<close>

definition hideShoe :: "ARState \<Rightarrow> ARState" where
  "hideShoe s = s\<lparr>arShoeModel := map_option (\<lambda>m. m\<lparr>visible := False\<rparr>) (arShoeModel s)\<rparr>"

text \<open>Lines 955-957: one render of the scene when renderer, scene and camera exist.\<close>

definition renderARScene :: "ARState \<Rightarrow> ARState" where
  "renderARScene s =
     (if arRenderer s \<noteq> None \<and> arScene s \<and> arCamera s \<noteq> None
      then s\<lparr>arRenderer := map_option (\<lambda>r. r\<lparr>frames_rendered := Suc (frames_rendered r)\<rparr>)
                             (arRenderer s)\<rparr>
      else s)"

text \<open>Lines 925-926: \<^verbatim>\<open>[a, h, t].filter(Boolean).length\<close>.\<close>

definition countVisible :: "Landmark option list \<Rightarrow> nat" where
  "countVisible ls = length (filter (\<lambda>l. l \<noteq> None) ls)"

text \<open>\<^verbatim>\<open>onPoseResults\<close>, lines 903-980.\<close>

definition onPoseResults :: "PoseResults \<Rightarrow> ARState \<Rightarrow> ARState" where
  "onPoseResults results s =
     (if \<not> isARMode s \<or> \<not> arOverlayContext s \<or> arOverlayCanvas s = None then s
      else
        (let s1 = withOverlay clearRect (resizeARCanvases s) in
         if (case poseLandmarks results of None \<Rightarrow> False | Some ls \<Rightarrow> length ls \<ge> 33) then
           (let landmarks = the (poseLandmarks results);
                leftAnkle = visibleLandmark landmarks 27;
                rightAnkle = visibleLandmark landmarks 28;
                leftHeel = visibleLandmark landmarks 29;
                rightHeel = visibleLandmark landmarks 30;
                leftFootIndex = visibleLandmark landmarks 31;
                rightFootIndex = visibleLandmark landmarks 32;
                leftFootLandmarks = countVisible [leftAnkle, leftHeel, leftFootIndex];
                rightFootLandmarks = countVisible [rightAnkle, rightHeel, rightFootIndex];
                hasGoodLeftFoot = (leftFootLandmarks \<ge> 2);
                hasGoodRightFoot = (rightFootLandmarks \<ge> 2)
            in if hasGoodLeftFoot \<or> hasGoodRightFoot then
                 (let hasCompleteRightFoot = (rightAnkle \<noteq> None \<and> rightFootIndex \<noteq> None);
                      hasCompleteLeftFoot = (leftAnkle \<noteq> None \<and> leftFootIndex \<noteq> None);
                      s2 = (if hasCompleteRightFoot \<or> hasCompleteLeftFoot then
                              positionARShoe leftAnkle rightAnkle leftFootIndex rightFootIndex
                                (withOverlay
                                   (drawFootIndicators leftAnkle rightAnkle leftFootIndex rightFootIndex)
                                   (updateARStatus
                                      (''Shoe positioned! Try moving your foot '' @ emoji_shoe
                                         @ emoji_sparkles) ''success'' s1))
                            else
                              withOverlay
                                (drawFootIndicators leftAnkle rightAnkle leftFootIndex rightFootIndex)
                                (updateARStatus
                                   (''Feet detected - show ankle and toes clearly ''
                                      @ emoji_footprints) ''detecting'' s1))
                  in renderARScene s2)
               else
                 withOverlay drawPoseDetectionIndicator
                   (hideShoe
                      (updateARStatus (''Point camera at your feet - move closer '' @ emoji_footprints)
                         ''detecting'' s1)))
         else
           withOverlay drawNoPoseIndicator
             (hideShoe (updateARStatus ''Looking for pose...'' ''detecting'' s1))))"

section \<open>Leaving the session\<close>

text \<open>\<^verbatim>\<open>hideARInterface\<close>, lines 850-873.\<close>

definition hideARInterface :: "ARState \<Rightarrow> ARState" where
  "hideARInterface s =
     s\<lparr>el_arContainer := map_option (insert ''hidden'') (el_arContainer s),
       el_sceneContainer := map_option (\<lambda>_. ''block'') (el_sceneContainer s),
       el_panel := map_option (\<lambda>c. c - {''ar-active''}) (el_panel s),
       el_arModeBtn := map_option (\<lambda>c. c - {''hidden''}) (el_arModeBtn s),
       el_normalModeBtn := map_option (insert ''hidden'') (el_normalModeBtn s),
       el_exportBtn := map_option (\<lambda>c. c - {''hidden''}) (el_exportBtn s),
       el_arCaptureBtn := map_option (insert ''hidden'') (el_arCaptureBtn s)\<rparr>"

text \<open>\<^verbatim>\<open>exitARMode\<close>, lines 734-752.\<close>

definition exitARMode :: "ARState \<Rightarrow> ARState" where
  "exitARMode s =
     (let s1 = (case videoStream s of
                  None \<Rightarrow> s
                | Some h \<Rightarrow> s\<lparr>streams := (streams s)(h := map (\<lambda>track. Ended) (streams s h)),
                              videoStream := None\<rparr>);
          s2 = hideARInterface s1;
          s3 = updateARStatus ''Looking for feet...'' '''' s2
      in s3\<lparr>isARMode := False\<rparr>)"

section \<open>Sessions and frames\<close>

text \<open>
  The guard of line 904: the handler runs only in try-on mode with an overlay canvas
  and its drawing context.
\<close>

definition activeSession :: "ARState \<Rightarrow> bool" where
  "activeSession s \<longleftrightarrow> isARMode s \<and> arOverlayContext s \<and> arOverlayCanvas s \<noteq> None"

text \<open>Concrete inputs: a landmark, a 33-entry landmark list given by its six foot entries,
  and the state of a session just entered on a page that has every element and a loaded
  model (the clone made by \<^verbatim>\<open>setupARScene\<close> is visible, with scale 0.1).\<close>

definition mkLandmark :: "real \<Rightarrow> real \<Rightarrow> real \<Rightarrow> Landmark" where
  "mkLandmark px py v = \<lparr>lm_x = px, lm_y = py, lm_z = 0, visibility = v\<rparr>"

definition footLandmarks ::
  "Landmark option \<Rightarrow> Landmark option \<Rightarrow> Landmark option \<Rightarrow> Landmark option
     \<Rightarrow> Landmark option \<Rightarrow> Landmark option \<Rightarrow> Landmark option list" where
  "footLandmarks e27 e28 e29 e30 e31 e32 =
     replicate 27 (Some (mkLandmark 0.5 0.2 0.9)) @ [e27, e28, e29, e30, e31, e32]"

definition footFrame ::
  "Landmark option \<Rightarrow> Landmark option \<Rightarrow> Landmark option \<Rightarrow> Landmark option
     \<Rightarrow> Landmark option \<Rightarrow> Landmark option \<Rightarrow> PoseResults" where
  "footFrame e27 e28 e29 e30 e31 e32 =
     \<lparr>poseLandmarks = Some (footLandmarks e27 e28 e29 e30 e31 e32)\<rparr>"

definition enteredSession :: ARState where
  "enteredSession =
     \<lparr>isARMode = True,
      arVideo = Some \<lparr>videoWidth = 1280, videoHeight = 720\<rparr>,
      arOverlayCanvas = Some \<lparr>cv_width = 300, cv_height = 150, drawn = []\<rparr>,
      arOverlayContext = True,
      ar3DCanvas = Some \<lparr>sz_width = 300, sz_height = 150\<rparr>,
      arCamera = Some \<lparr>aspect = 2\<rparr>,
      arRenderer = Some \<lparr>r_size = \<lparr>sz_width = 300, sz_height = 150\<rparr>, frames_rendered = 0\<rparr>,
      arScene = True,
      arShoeModel = Some \<lparr>position = \<lparr>vx = 0, vy = 0, vz = 0\<rparr>,
                          rotation = \<lparr>vx = 0, vy = 0, vz = 0\<rparr>,
                          scale3 = \<lparr>vx = 0.1, vy = 0.1, vz = 0.1\<rparr>,
                          visible = True\<rparr>,
      videoStream = Some 0,
      streams = (\<lambda>h. if h = 0 then [Live] else []),
      el_status = Some \<lparr>textContent = ''Looking for feet...'', className = ''ar-status detecting''\<rparr>,
      el_arContainer = Some {},
      el_sceneContainer = Some ''none'',
      el_panel = Some {''ar-active''},
      el_arModeBtn = Some {''hidden''},
      el_normalModeBtn = Some {},
      el_exportBtn = Some {''hidden''},
      el_arCaptureBtn = Some {}\<rparr>"

section \<open>The library's atan2\<close>

text \<open>
  \<^const>\<open>Math_atan2\<close> is the polar angle: it lies in \<open>(-\<pi>, \<pi>]\<close> and, away from the
  origin, its cosine and sine are the normalised coordinates.
\<close>

lemma sqrt_one_plus_ratio:
  fixes x y :: real
  assumes "x \<noteq> 0"
  shows "sqrt (1 + (y / x)\<^sup>2) = sqrt (x\<^sup>2 + y\<^sup>2) / \<bar>x\<bar>"
proof -
  have "1 + (y / x)\<^sup>2 = (x\<^sup>2 + y\<^sup>2) / x\<^sup>2"
    using assms by (simp add: field_simps power2_eq_square)
  then show ?thesis
    by (simp add: real_sqrt_divide)
qed

lemma Math_atan2_range: "- pi < Math_atan2 y x \<and> Math_atan2 y x \<le> pi"
proof -
  have a: "- (pi / 2) < arctan (y / x)" "arctan (y / x) < pi / 2"
    by (rule arctan_lbound, rule arctan_ubound)
  have b: "x < 0 \<Longrightarrow> 0 \<le> y \<Longrightarrow> arctan (y / x) \<le> 0"
    by (simp add: divide_nonneg_neg)
  have c: "x < 0 \<Longrightarrow> y < 0 \<Longrightarrow> 0 < arctan (y / x)"
    by (simp add: divide_neg_neg)
  show ?thesis
    using a b c pi_gt_zero by (auto simp add: Math_atan2_def)
qed

lemma Math_atan2_cos:
  assumes "x \<noteq> 0 \<or> y \<noteq> 0"
  shows "cos (Math_atan2 y x) = x / sqrt (x\<^sup>2 + y\<^sup>2)"
proof (cases "x = 0")
  case True
  then show ?thesis using assms by (auto simp add: Math_atan2_def)
next
  case False
  then show ?thesis
    by (auto simp add: Math_atan2_def cos_arctan sqrt_one_plus_ratio)
qed

lemma Math_atan2_sin:
  assumes "x \<noteq> 0 \<or> y \<noteq> 0"
  shows "sin (Math_atan2 y x) = y / sqrt (x\<^sup>2 + y\<^sup>2)"
proof (cases "x = 0")
  case True
  then show ?thesis using assms by (auto simp add: Math_atan2_def real_sqrt_abs' abs_if)
next
  case False
  then show ?thesis
    by (auto simp add: Math_atan2_def sin_arctan sqrt_one_plus_ratio)
qed

section \<open>Effects of the helper functions on single variables\<close>

lemma updateARStatus_simps:
  "isARMode (updateARStatus m t s) = isARMode s"
  "arVideo (updateARStatus m t s) = arVideo s"
  "arOverlayCanvas (updateARStatus m t s) = arOverlayCanvas s"
  "arOverlayContext (updateARStatus m t s) = arOverlayContext s"
  "ar3DCanvas (updateARStatus m t s) = ar3DCanvas s"
  "arCamera (updateARStatus m t s) = arCamera s"
  "arRenderer (updateARStatus m t s) = arRenderer s"
  "arScene (updateARStatus m t s) = arScene s"
  "arShoeModel (updateARStatus m t s) = arShoeModel s"
  "el_status (updateARStatus m t s) =
     map_option (\<lambda>e. e\<lparr>textContent := m, className := ''ar-status '' @ t\<rparr>) (el_status s)"
  by (simp_all add: updateARStatus_def split: option.splits)

lemma withOverlay_simps:
  "isARMode (withOverlay f s) = isARMode s"
  "arCamera (withOverlay f s) = arCamera s"
  "arRenderer (withOverlay f s) = arRenderer s"
  "arScene (withOverlay f s) = arScene s"
  "arShoeModel (withOverlay f s) = arShoeModel s"
  "el_status (withOverlay f s) = el_status s"
  "arOverlayCanvas (withOverlay f s) = map_option f (arOverlayCanvas s)"
  by (simp_all add: withOverlay_def)

lemma hideShoe_simps:
  "isARMode (hideShoe s) = isARMode s"
  "arCamera (hideShoe s) = arCamera s"
  "arRenderer (hideShoe s) = arRenderer s"
  "arScene (hideShoe s) = arScene s"
  "arShoeModel (hideShoe s) = map_option (\<lambda>m. m\<lparr>visible := False\<rparr>) (arShoeModel s)"
  "el_status (hideShoe s) = el_status s"
  "arOverlayCanvas (hideShoe s) = arOverlayCanvas s"
  by (simp_all add: hideShoe_def)

lemma renderARScene_simps:
  "isARMode (renderARScene s) = isARMode s"
  "arCamera (renderARScene s) = arCamera s"
  "arScene (renderARScene s) = arScene s"
  "arShoeModel (renderARScene s) = arShoeModel s"
  "el_status (renderARScene s) = el_status s"
  "arOverlayCanvas (renderARScene s) = arOverlayCanvas s"
  by (simp_all add: renderARScene_def)

lemma resizeARCanvases_simps:
  "isARMode (resizeARCanvases s) = isARMode s"
  "arScene (resizeARCanvases s) = arScene s"
  "arShoeModel (resizeARCanvases s) = arShoeModel s"
  "el_status (resizeARCanvases s) = el_status s"
  "(arCamera (resizeARCanvases s) = None) = (arCamera s = None)"
  "(arRenderer (resizeARCanvases s) = None) = (arRenderer s = None)"
  "(arOverlayCanvas (resizeARCanvases s) = None) = (arOverlayCanvas s = None)"
  by (simp_all add: resizeARCanvases_def Let_def split: option.splits)

lemma positionARShoe_simps:
  "isARMode (positionARShoe la ra lf rf s) = isARMode s"
  "arCamera (positionARShoe la ra lf rf s) = arCamera s"
  "arRenderer (positionARShoe la ra lf rf s) = arRenderer s"
  "arScene (positionARShoe la ra lf rf s) = arScene s"
  "el_status (positionARShoe la ra lf rf s) = el_status s"
  "arOverlayCanvas (positionARShoe la ra lf rf s) = arOverlayCanvas s"
  by (simp_all add: positionARShoe_def Let_def split: option.splits prod.splits)

lemmas frame_simps = updateARStatus_simps withOverlay_simps hideShoe_simps renderARScene_simps
  resizeARCanvases_simps positionARShoe_simps

subsection \<open>The object after a placement\<close>

lemma positionARShoe_model_cong:
  assumes "arShoeModel s = arShoeModel s'" "(arCamera s = None) = (arCamera s' = None)"
  shows "arShoeModel (positionARShoe la ra lf rf s) = arShoeModel (positionARShoe la ra lf rf s')"
  using assms by (auto simp add: positionARShoe_def Let_def split: option.splits prod.splits)

lemma positionARShoe_complete:
  assumes "arShoeModel s = Some m" "arCamera s \<noteq> None"
    and "selectFoot la ra lf rf = (Some a, Some f, side)"
  shows "arShoeModel (positionARShoe la ra lf rf s) =
     Some \<lparr>position = \<lparr>vx = ((lm_x a + lm_x f) / 2 - 0.5) * 6 + (lm_x f - lm_x a) * 0.2,
                        vy = - ((lm_y a + lm_y f) / 2 - 0.5) * 6 + - (lm_y f - lm_y a) * 0.2,
                        vz = - 2\<rparr>,
           rotation = \<lparr>vx = 0, vy = (if side then pi else 0),
                        vz = - Math_atan2 (lm_y f - lm_y a) (lm_x f - lm_x a)\<rparr>,
           scale3 = (let d = max 0.05 (min 0.15 (sqrt ((lm_x f - lm_x a)\<^sup>2 + (lm_y f - lm_y a)\<^sup>2) * 2))
                     in \<lparr>vx = d, vy = d, vz = d\<rparr>),
           visible = True\<rparr>"
  using assms by (auto simp add: positionARShoe_def Let_def)

lemma positionARShoe_incomplete:
  assumes "arShoeModel s = Some m" "arCamera s \<noteq> None"
    and "selectFoot la ra lf rf = (None, None, side)"
  shows "arShoeModel (positionARShoe la ra lf rf s) = Some (m\<lparr>visible := False\<rparr>)"
  using assms by (auto simp add: positionARShoe_def Let_def)

subsection \<open>The object and the status after a frame\<close>

lemma complete_is_good:
  "a \<noteq> None \<Longrightarrow> t \<noteq> None \<Longrightarrow> 2 \<le> countVisible [a, h, t]"
  by (simp add: countVisible_def)

lemma onPoseResults_inactive: "\<not> activeSession s \<Longrightarrow> onPoseResults r s = s"
  by (auto simp add: onPoseResults_def activeSession_def)

lemma onPoseResults_model_complete:
  assumes "activeSession s" "poseLandmarks r = Some ls" "33 \<le> length ls"
    and "(visibleLandmark ls 28 \<noteq> None \<and> visibleLandmark ls 32 \<noteq> None)
         \<or> (visibleLandmark ls 27 \<noteq> None \<and> visibleLandmark ls 31 \<noteq> None)"
  shows "arShoeModel (onPoseResults r s) =
         arShoeModel (positionARShoe (visibleLandmark ls 27) (visibleLandmark ls 28)
                        (visibleLandmark ls 31) (visibleLandmark ls 32) s)"
proof -
  have good: "2 \<le> countVisible [visibleLandmark ls 27, visibleLandmark ls 29, visibleLandmark ls 31]
      \<or> 2 \<le> countVisible [visibleLandmark ls 28, visibleLandmark ls 30, visibleLandmark ls 32]"
    using assms(4) complete_is_good by blast
  have "arShoeModel (onPoseResults r s) =
        arShoeModel (positionARShoe (visibleLandmark ls 27) (visibleLandmark ls 28)
                        (visibleLandmark ls 31) (visibleLandmark ls 32)
          (withOverlay (drawFootIndicators (visibleLandmark ls 27) (visibleLandmark ls 28)
                        (visibleLandmark ls 31) (visibleLandmark ls 32))
             (updateARStatus (''Shoe positioned! Try moving your foot '' @ emoji_shoe @ emoji_sparkles)
                ''success'' (withOverlay clearRect (resizeARCanvases s)))))"
    using assms good
    by (clarsimp simp add: onPoseResults_def activeSession_def Let_def frame_simps)
  also have "\<dots> = arShoeModel (positionARShoe (visibleLandmark ls 27) (visibleLandmark ls 28)
                        (visibleLandmark ls 31) (visibleLandmark ls 32) s)"
    by (rule positionARShoe_model_cong) (simp_all add: frame_simps)
  finally show ?thesis .
qed

lemma onPoseResults_model_partial:
  assumes "activeSession s" "poseLandmarks r = Some ls" "33 \<le> length ls"
    and "2 \<le> countVisible [visibleLandmark ls 27, visibleLandmark ls 29, visibleLandmark ls 31]
      \<or> 2 \<le> countVisible [visibleLandmark ls 28, visibleLandmark ls 30, visibleLandmark ls 32]"
    and "\<not> (visibleLandmark ls 28 \<noteq> None \<and> visibleLandmark ls 32 \<noteq> None)"
    and "\<not> (visibleLandmark ls 27 \<noteq> None \<and> visibleLandmark ls 31 \<noteq> None)"
  shows "arShoeModel (onPoseResults r s) = arShoeModel s"
  using assms
  by (auto simp add: onPoseResults_def activeSession_def Let_def frame_simps)

lemma status_searching:
  assumes "activeSession s"
    and "poseLandmarks r = None \<or> (\<exists>ls. poseLandmarks r = Some ls \<and> length ls < 33)"
  shows "el_status (onPoseResults r s) =
     map_option (\<lambda>e. e\<lparr>textContent := ''Looking for pose...'',
                         className := ''ar-status detecting''\<rparr>) (el_status s)"
  using assms by (auto simp add: onPoseResults_def activeSession_def Let_def frame_simps)

lemma status_poseFound:
  assumes "activeSession s" "poseLandmarks r = Some ls" "33 \<le> length ls"
    and "\<not> 2 \<le> countVisible [visibleLandmark ls 27, visibleLandmark ls 29, visibleLandmark ls 31]"
    and "\<not> 2 \<le> countVisible [visibleLandmark ls 28, visibleLandmark ls 30, visibleLandmark ls 32]"
  shows "el_status (onPoseResults r s) =
     map_option (\<lambda>e. e\<lparr>textContent := ''Point camera at your feet - move closer '' @ emoji_footprints,
                         className := ''ar-status detecting''\<rparr>) (el_status s)"
  using assms by (clarsimp simp add: onPoseResults_def activeSession_def Let_def frame_simps)

lemma status_feetPartial:
  assumes "activeSession s" "poseLandmarks r = Some ls" "33 \<le> length ls"
    and "2 \<le> countVisible [visibleLandmark ls 27, visibleLandmark ls 29, visibleLandmark ls 31]
      \<or> 2 \<le> countVisible [visibleLandmark ls 28, visibleLandmark ls 30, visibleLandmark ls 32]"
    and "\<not> (visibleLandmark ls 28 \<noteq> None \<and> visibleLandmark ls 32 \<noteq> None)"
    and "\<not> (visibleLandmark ls 27 \<noteq> None \<and> visibleLandmark ls 31 \<noteq> None)"
  shows "el_status (onPoseResults r s) =
     map_option (\<lambda>e. e\<lparr>textContent := ''Feet detected - show ankle and toes clearly '' @ emoji_footprints,
                         className := ''ar-status detecting''\<rparr>) (el_status s)"
  using assms by (auto simp add: onPoseResults_def activeSession_def Let_def frame_simps)

lemma status_feetLocked:
  assumes "activeSession s" "poseLandmarks r = Some ls" "33 \<le> length ls"
    and "(visibleLandmark ls 28 \<noteq> None \<and> visibleLandmark ls 32 \<noteq> None)
         \<or> (visibleLandmark ls 27 \<noteq> None \<and> visibleLandmark ls 31 \<noteq> None)"
  shows "el_status (onPoseResults r s) =
     map_option (\<lambda>e. e\<lparr>textContent := ''Shoe positioned! Try moving your foot '' @ emoji_shoe @ emoji_sparkles,
                         className := ''ar-status success''\<rparr>) (el_status s)"
proof -
  have good: "2 \<le> countVisible [visibleLandmark ls 27, visibleLandmark ls 29, visibleLandmark ls 31]
      \<or> 2 \<le> countVisible [visibleLandmark ls 28, visibleLandmark ls 30, visibleLandmark ls 32]"
    using assms(4) complete_is_good by blast
  show ?thesis
    using assms good
    by (clarsimp simp add: onPoseResults_def activeSession_def Let_def frame_simps)
qed

lemma positionARShoe_right_complete:
  "arShoeModel (positionARShoe la (Some a) lf (Some f) s) =
   arShoeModel (positionARShoe la' (Some a) lf' (Some f) s)"
  by (auto simp add: positionARShoe_def selectFoot_def split: option.splits)

subsection \<open>After exit\<close>

lemma fold_onPoseResults_inactive:
  "\<not> isARMode s \<Longrightarrow> fold onPoseResults frames s = s"
  by (induction frames) (simp_all add: onPoseResults_def)

lemma exitARMode_simps:
  "isARMode (exitARMode s) = False"
  "videoStream (exitARMode s) = None"
  "arShoeModel (exitARMode s) = arShoeModel s"
  "arOverlayCanvas (exitARMode s) = arOverlayCanvas s"
  "el_status (exitARMode s) =
     map_option (\<lambda>e. e\<lparr>textContent := ''Looking for feet...'', className := ''ar-status ''\<rparr>)
       (el_status s)"
  "el_arContainer (exitARMode s) = map_option (insert ''hidden'') (el_arContainer s)"
  "streams (exitARMode s) =
     (case videoStream s of None \<Rightarrow> streams s
      | Some h \<Rightarrow> (streams s)(h := map (\<lambda>track. Ended) (streams s h)))"
  by (simp_all add: exitARMode_def hideARInterface_def updateARStatus_def Let_def
        split: option.splits)

subsection \<open>The concrete frames and session\<close>

lemma visibleLandmark_footLandmarks:
  "visibleLandmark (footLandmarks e27 e28 e29 e30 e31 e32) 27 =
     (case e27 of None \<Rightarrow> None | Some l \<Rightarrow> if visibility l > 0.5 then Some l else None)"
  "visibleLandmark (footLandmarks e27 e28 e29 e30 e31 e32) 28 =
     (case e28 of None \<Rightarrow> None | Some l \<Rightarrow> if visibility l > 0.5 then Some l else None)"
  "visibleLandmark (footLandmarks e27 e28 e29 e30 e31 e32) 29 =
     (case e29 of None \<Rightarrow> None | Some l \<Rightarrow> if visibility l > 0.5 then Some l else None)"
  "visibleLandmark (footLandmarks e27 e28 e29 e30 e31 e32) 30 =
     (case e30 of None \<Rightarrow> None | Some l \<Rightarrow> if visibility l > 0.5 then Some l else None)"
  "visibleLandmark (footLandmarks e27 e28 e29 e30 e31 e32) 31 =
     (case e31 of None \<Rightarrow> None | Some l \<Rightarrow> if visibility l > 0.5 then Some l else None)"
  "visibleLandmark (footLandmarks e27 e28 e29 e30 e31 e32) 32 =
     (case e32 of None \<Rightarrow> None | Some l \<Rightarrow> if visibility l > 0.5 then Some l else None)"
  by (simp_all add: visibleLandmark_def footLandmarks_def nth_append)

lemma length_footLandmarks: "length (footLandmarks e27 e28 e29 e30 e31 e32) = 33"
  by (simp add: footLandmarks_def)

lemma activeSession_enteredSession: "activeSession enteredSession"
  by (simp add: activeSession_def enteredSession_def)

lemma onPoseResults_complete_heel_free:
  assumes "activeSession s" and "33 \<le> length ls" and "33 \<le> length ls'"
    and "ls ! 27 = ls' ! 27" and "ls ! 28 = ls' ! 28" and "ls ! 31 = ls' ! 31" and "ls ! 32 = ls' ! 32"
    and "(visibleLandmark ls 28 \<noteq> None \<and> visibleLandmark ls 32 \<noteq> None)
         \<or> (visibleLandmark ls 27 \<noteq> None \<and> visibleLandmark ls 31 \<noteq> None)"
  shows "onPoseResults \<lparr>poseLandmarks = Some ls\<rparr> s = onPoseResults \<lparr>poseLandmarks = Some ls'\<rparr> s"
proof -
  have eq: "visibleLandmark ls' 27 = visibleLandmark ls 27" "visibleLandmark ls' 28 = visibleLandmark ls 28"
     "visibleLandmark ls' 31 = visibleLandmark ls 31" "visibleLandmark ls' 32 = visibleLandmark ls 32"
    using assms(2-7) by (simp_all add: visibleLandmark_def)
  have good: "2 \<le> countVisible [visibleLandmark ls 27, visibleLandmark ls 29, visibleLandmark ls 31]
      \<or> 2 \<le> countVisible [visibleLandmark ls 28, visibleLandmark ls 30, visibleLandmark ls 32]"
    using assms(8) complete_is_good by blast
  have good': "2 \<le> countVisible [visibleLandmark ls 27, visibleLandmark ls' 29, visibleLandmark ls 31]
      \<or> 2 \<le> countVisible [visibleLandmark ls 28, visibleLandmark ls' 30, visibleLandmark ls 32]"
    using assms(8) complete_is_good by blast
  show ?thesis
    using assms(1,2,3,8) good good'
    by (clarsimp simp add: onPoseResults_def activeSession_def Let_def eq)
qed

lemma el_status_enteredSession:
  "el_status enteredSession
     = Some \<lparr>textContent = ''Looking for feet...'', className = ''ar-status detecting''\<rparr>"
  by (simp add: enteredSession_def)

lemma more_frame_simps:
  "arOverlayContext (withOverlay f s) = arOverlayContext s"
  "arOverlayContext (hideShoe s) = arOverlayContext s"
  "arOverlayContext (renderARScene s) = arOverlayContext s"
  "arOverlayContext (resizeARCanvases s) = arOverlayContext s"
  "arOverlayContext (positionARShoe la ra lf rf s) = arOverlayContext s"
  by (simp_all add: withOverlay_def hideShoe_def renderARScene_def resizeARCanvases_def
        positionARShoe_def Let_def split: option.splits prod.splits)

lemma onPoseResults_guard:
  "isARMode (onPoseResults r s) = isARMode s"
  "arOverlayContext (onPoseResults r s) = arOverlayContext s"
  "(arOverlayCanvas (onPoseResults r s) = None) = (arOverlayCanvas s = None)"
  by (simp_all add: onPoseResults_def Let_def frame_simps more_frame_simps del: not_None_eq)

lemma activeSession_onPoseResults:
  "activeSession (onPoseResults r s) = activeSession s"
  by (simp add: activeSession_def onPoseResults_guard del: not_None_eq)

section \<open>Landmark validator\<close>

text \<open>
  Claim C2.  For a landmark list of at least 33 entries and an index among 27..32 that
  holds a landmark, the validator returns that landmark unchanged when its visibility is
  strictly greater than 0.5 and returns absent when the visibility is at most 0.5; a
  visibility of exactly 0.5 is absent.
\<close>

theorem validator_threshold:
  assumes "33 \<le> length landmarks" and "i \<in> {27..32}" and "landmarks ! i = Some l"
  shows "(visibility l > 0.5 \<longrightarrow> visibleLandmark landmarks i = Some l)
       \<and> (visibility l \<le> 0.5 \<longrightarrow> visibleLandmark landmarks i = None)"
  using assms by (simp add: visibleLandmark_def)

theorem validator_threshold_witness:
  "33 \<le> length (footLandmarks (Some (mkLandmark 0.3 0.5 0.5)) (Some (mkLandmark 0.4 0.5 0.9))
                   None None None None)
   \<and> visibleLandmark (footLandmarks (Some (mkLandmark 0.3 0.5 0.5)) (Some (mkLandmark 0.4 0.5 0.9))
                        None None None None) 27 = None
   \<and> visibleLandmark (footLandmarks (Some (mkLandmark 0.3 0.5 0.5)) (Some (mkLandmark 0.4 0.5 0.9))
                        None None None None) 28 = Some (mkLandmark 0.4 0.5 0.9)"
  using validator_threshold [of "footLandmarks (Some (mkLandmark 0.3 0.5 0.5))
                                   (Some (mkLandmark 0.4 0.5 0.9)) None None None None"
                                27 "mkLandmark 0.3 0.5 0.5"]
        validator_threshold [of "footLandmarks (Some (mkLandmark 0.3 0.5 0.5))
                                   (Some (mkLandmark 0.4 0.5 0.9)) None None None None"
                                28 "mkLandmark 0.4 0.5 0.9"]
  by (simp add: footLandmarks_def mkLandmark_def nth_append)

section \<open>Status and foot selection\<close>

text \<open>
  Claim C3.  In an active session whose page has the status element, the status shown
  after a frame is: ``Looking for pose...'' (Searching) when the landmark list is absent
  or shorter than 33; ``Point camera at your feet - move closer'' (PoseFound) when the
  list has at least 33 entries and neither side has two of its three foot landmarks;
  ``Feet detected - show ankle and toes clearly'' (FeetPartial) when some side has two
  of three but no side has both ankle and toe; ``Shoe positioned! Try moving your foot''
  (FeetLocked) when some side has both ankle and toe.
\<close>

theorem tracking_status:
  assumes "activeSession s" and "el_status s = Some e"
  shows "(poseLandmarks r = None \<or> (\<exists>ls. poseLandmarks r = Some ls \<and> length ls < 33)
            \<longrightarrow> el_status (onPoseResults r s)
                = Some \<lparr>textContent = ''Looking for pose...'',
                        className = ''ar-status detecting''\<rparr>)
       \<and> (\<forall>ls. poseLandmarks r = Some ls \<and> 33 \<le> length ls \<longrightarrow>
            (let leftAnkle = visibleLandmark ls 27; rightAnkle = visibleLandmark ls 28;
                 leftHeel = visibleLandmark ls 29; rightHeel = visibleLandmark ls 30;
                 leftToe = visibleLandmark ls 31; rightToe = visibleLandmark ls 32;
                 goodLeft = (2 \<le> countVisible [leftAnkle, leftHeel, leftToe]);
                 goodRight = (2 \<le> countVisible [rightAnkle, rightHeel, rightToe]);
                 completeLeft = (leftAnkle \<noteq> None \<and> leftToe \<noteq> None);
                 completeRight = (rightAnkle \<noteq> None \<and> rightToe \<noteq> None)
             in (\<not> goodLeft \<and> \<not> goodRight
                   \<longrightarrow> el_status (onPoseResults r s)
                       = Some \<lparr>textContent = ''Point camera at your feet - move closer ''
                                               @ emoji_footprints,
                               className = ''ar-status detecting''\<rparr>)
              \<and> ((goodLeft \<or> goodRight) \<and> \<not> completeLeft \<and> \<not> completeRight
                   \<longrightarrow> el_status (onPoseResults r s)
                       = Some \<lparr>textContent = ''Feet detected - show ankle and toes clearly ''
                                               @ emoji_footprints,
                               className = ''ar-status detecting''\<rparr>)
              \<and> (completeLeft \<or> completeRight
                   \<longrightarrow> el_status (onPoseResults r s)
                       = Some \<lparr>textContent = ''Shoe positioned! Try moving your foot ''
                                               @ emoji_shoe @ emoji_sparkles,
                               className = ''ar-status success''\<rparr>)))"
proof (intro conjI impI allI)
  assume "poseLandmarks r = None \<or> (\<exists>ls. poseLandmarks r = Some ls \<and> length ls < 33)"
  then show "el_status (onPoseResults r s)
       = Some \<lparr>textContent = ''Looking for pose...'', className = ''ar-status detecting''\<rparr>"
    using status_searching [OF assms(1)] assms(2) by simp
next
  fix ls
  assume ls: "poseLandmarks r = Some ls \<and> 33 \<le> length ls"
  show "(let leftAnkle = visibleLandmark ls 27; rightAnkle = visibleLandmark ls 28;
                 leftHeel = visibleLandmark ls 29; rightHeel = visibleLandmark ls 30;
                 leftToe = visibleLandmark ls 31; rightToe = visibleLandmark ls 32;
                 goodLeft = (2 \<le> countVisible [leftAnkle, leftHeel, leftToe]);
                 goodRight = (2 \<le> countVisible [rightAnkle, rightHeel, rightToe]);
                 completeLeft = (leftAnkle \<noteq> None \<and> leftToe \<noteq> None);
                 completeRight = (rightAnkle \<noteq> None \<and> rightToe \<noteq> None)
             in (\<not> goodLeft \<and> \<not> goodRight
                   \<longrightarrow> el_status (onPoseResults r s)
                       = Some \<lparr>textContent = ''Point camera at your feet - move closer ''
                                               @ emoji_footprints,
                               className = ''ar-status detecting''\<rparr>)
              \<and> ((goodLeft \<or> goodRight) \<and> \<not> completeLeft \<and> \<not> completeRight
                   \<longrightarrow> el_status (onPoseResults r s)
                       = Some \<lparr>textContent = ''Feet detected - show ankle and toes clearly ''
                                               @ emoji_footprints,
                               className = ''ar-status detecting''\<rparr>)
              \<and> (completeLeft \<or> completeRight
                   \<longrightarrow> el_status (onPoseResults r s)
                       = Some \<lparr>textContent = ''Shoe positioned! Try moving your foot ''
                                               @ emoji_shoe @ emoji_sparkles,
                               className = ''ar-status success''\<rparr>))"
    unfolding Let_def
  proof (intro conjI impI)
    assume "\<not> 2 \<le> countVisible [visibleLandmark ls 27, visibleLandmark ls 29, visibleLandmark ls 31]
          \<and> \<not> 2 \<le> countVisible [visibleLandmark ls 28, visibleLandmark ls 30, visibleLandmark ls 32]"
    then show "el_status (onPoseResults r s)
        = Some \<lparr>textContent = ''Point camera at your feet - move closer '' @ emoji_footprints,
                className = ''ar-status detecting''\<rparr>"
      using status_poseFound [OF assms(1), of r ls] ls assms(2) by simp
  next
    assume "(2 \<le> countVisible [visibleLandmark ls 27, visibleLandmark ls 29, visibleLandmark ls 31]
          \<or> 2 \<le> countVisible [visibleLandmark ls 28, visibleLandmark ls 30, visibleLandmark ls 32])
        \<and> \<not> (visibleLandmark ls 27 \<noteq> None \<and> visibleLandmark ls 31 \<noteq> None)
        \<and> \<not> (visibleLandmark ls 28 \<noteq> None \<and> visibleLandmark ls 32 \<noteq> None)"
    then show "el_status (onPoseResults r s)
        = Some \<lparr>textContent = ''Feet detected - show ankle and toes clearly '' @ emoji_footprints,
                className = ''ar-status detecting''\<rparr>"
      using status_feetPartial [OF assms(1), of r ls] ls assms(2) by simp
  next
    assume "(visibleLandmark ls 27 \<noteq> None \<and> visibleLandmark ls 31 \<noteq> None)
          \<or> (visibleLandmark ls 28 \<noteq> None \<and> visibleLandmark ls 32 \<noteq> None)"
    then have "(visibleLandmark ls 28 \<noteq> None \<and> visibleLandmark ls 32 \<noteq> None)
          \<or> (visibleLandmark ls 27 \<noteq> None \<and> visibleLandmark ls 31 \<noteq> None)"
      by blast
    then show "el_status (onPoseResults r s)
        = Some \<lparr>textContent = ''Shoe positioned! Try moving your foot '' @ emoji_shoe @ emoji_sparkles,
                className = ''ar-status success''\<rparr>"
      using status_feetLocked [OF assms(1), of r ls] ls assms(2) by simp
  qed
qed

theorem tracking_status_witness:
  "el_status (onPoseResults \<lparr>poseLandmarks = None\<rparr> enteredSession)
     = Some \<lparr>textContent = ''Looking for pose...'', className = ''ar-status detecting''\<rparr>
   \<and> el_status (onPoseResults \<lparr>poseLandmarks = Some [Some (mkLandmark 0.5 0.6 0.9)]\<rparr>
                  enteredSession)
     = Some \<lparr>textContent = ''Looking for pose...'', className = ''ar-status detecting''\<rparr>
   \<and> el_status (onPoseResults (footFrame None None None None None None) enteredSession)
     = Some \<lparr>textContent = ''Point camera at your feet - move closer '' @ emoji_footprints,
             className = ''ar-status detecting''\<rparr>
   \<and> el_status (onPoseResults (footFrame None (Some (mkLandmark 0.5 0.6 0.9)) None
                                   (Some (mkLandmark 0.48 0.63 0.9)) None None) enteredSession)
     = Some \<lparr>textContent = ''Feet detected - show ankle and toes clearly '' @ emoji_footprints,
             className = ''ar-status detecting''\<rparr>
   \<and> el_status (onPoseResults (footFrame None (Some (mkLandmark 0.5 0.6 0.9)) None None None
                                   (Some (mkLandmark 0.55 0.62 0.8))) enteredSession)
     = Some \<lparr>textContent = ''Shoe positioned! Try moving your foot '' @ emoji_shoe @ emoji_sparkles,
             className = ''ar-status success''\<rparr>"
  using tracking_status [OF activeSession_enteredSession el_status_enteredSession,
          of "\<lparr>poseLandmarks = None\<rparr>"]
        tracking_status [OF activeSession_enteredSession el_status_enteredSession,
          of "\<lparr>poseLandmarks = Some [Some (mkLandmark 0.5 0.6 0.9)]\<rparr>"]
        tracking_status [OF activeSession_enteredSession el_status_enteredSession,
          of "footFrame None None None None None None"]
        tracking_status [OF activeSession_enteredSession el_status_enteredSession,
          of "footFrame None (Some (mkLandmark 0.5 0.6 0.9)) None
                        (Some (mkLandmark 0.48 0.63 0.9)) None None"]
        tracking_status [OF activeSession_enteredSession el_status_enteredSession,
          of "footFrame None (Some (mkLandmark 0.5 0.6 0.9)) None None None
                        (Some (mkLandmark 0.55 0.62 0.8))"]
  unfolding Let_def
  by (simp add: footFrame_def visibleLandmark_footLandmarks
        length_footLandmarks countVisible_def mkLandmark_def)

text \<open>
  Claim C4.  The foot chosen for placement is a function of the four ankle and toe
  landmarks: the right foot when right ankle and right toe are present, otherwise the
  left foot when left ankle and left toe are present, otherwise none.  With both sides
  complete the right foot is chosen.  The heels play no part: two frames of an active
  session that agree on the ankle and toe entries and have a complete side leave the
  same state, whatever their heel entries are.
\<close>

theorem foot_selection:
  "(ra \<noteq> None \<and> rf \<noteq> None \<longrightarrow> selectFoot la ra lf rf = (ra, rf, False))
   \<and> (\<not> (ra \<noteq> None \<and> rf \<noteq> None) \<and> la \<noteq> None \<and> lf \<noteq> None
        \<longrightarrow> selectFoot la ra lf rf = (la, lf, True))
   \<and> (\<not> (ra \<noteq> None \<and> rf \<noteq> None) \<and> \<not> (la \<noteq> None \<and> lf \<noteq> None)
        \<longrightarrow> selectFoot la ra lf rf = (None, None, False))
   \<and> (activeSession s \<and> 33 \<le> length ls \<and> 33 \<le> length ls'
        \<and> (\<forall>i \<in> {27, 28, 31, 32}. ls ! i = ls' ! i)
        \<and> ((visibleLandmark ls 28 \<noteq> None \<and> visibleLandmark ls 32 \<noteq> None)
            \<or> (visibleLandmark ls 27 \<noteq> None \<and> visibleLandmark ls 31 \<noteq> None))
        \<longrightarrow> onPoseResults \<lparr>poseLandmarks = Some ls\<rparr> s
            = onPoseResults \<lparr>poseLandmarks = Some ls'\<rparr> s)"
  using onPoseResults_complete_heel_free [of s ls ls']
  by (auto simp add: selectFoot_def)

theorem foot_selection_witness:
  "selectFoot (Some (mkLandmark 0.7 0.6 0.9)) (Some (mkLandmark 0.3 0.5 0.9))
              (Some (mkLandmark 0.8 0.6 0.9)) (Some (mkLandmark 0.4 0.5 0.9))
     = (Some (mkLandmark 0.3 0.5 0.9), Some (mkLandmark 0.4 0.5 0.9), False)
   \<and> selectFoot (Some (mkLandmark 0.7 0.6 0.9)) (Some (mkLandmark 0.3 0.5 0.9))
              (Some (mkLandmark 0.8 0.6 0.9)) None
     = (Some (mkLandmark 0.7 0.6 0.9), Some (mkLandmark 0.8 0.6 0.9), True)
   \<and> selectFoot (Some (mkLandmark 0.7 0.6 0.9)) None None (Some (mkLandmark 0.4 0.5 0.9))
     = (None, None, False)
   \<and> onPoseResults (footFrame None (Some (mkLandmark 0.3 0.5 0.9)) None None
                       None (Some (mkLandmark 0.4 0.5 0.9))) enteredSession
     = onPoseResults (footFrame None (Some (mkLandmark 0.3 0.5 0.9))
                       (Some (mkLandmark 0.7 0.65 0.9)) (Some (mkLandmark 0.28 0.52 0.9))
                       None (Some (mkLandmark 0.4 0.5 0.9))) enteredSession"
  using foot_selection [of "Some (mkLandmark 0.3 0.5 0.9)" "Some (mkLandmark 0.4 0.5 0.9)"
          "Some (mkLandmark 0.7 0.6 0.9)" "Some (mkLandmark 0.8 0.6 0.9)" enteredSession
          "footLandmarks None (Some (mkLandmark 0.3 0.5 0.9)) None None
                       None (Some (mkLandmark 0.4 0.5 0.9))"
          "footLandmarks None (Some (mkLandmark 0.3 0.5 0.9))
                       (Some (mkLandmark 0.7 0.65 0.9)) (Some (mkLandmark 0.28 0.52 0.9))
                       None (Some (mkLandmark 0.4 0.5 0.9))"]
        foot_selection [of "Some (mkLandmark 0.3 0.5 0.9)" None
          "Some (mkLandmark 0.7 0.6 0.9)" "Some (mkLandmark 0.8 0.6 0.9)"]
        foot_selection [of None "Some (mkLandmark 0.4 0.5 0.9)"
          "Some (mkLandmark 0.7 0.6 0.9)" None]
  by (simp add: footFrame_def visibleLandmark_def footLandmarks_def nth_append mkLandmark_def
        activeSession_enteredSession)

section \<open>Placement transformer\<close>

text \<open>
  Claim C5, as the code has it.  For a complete foot candidate, with the tracked object
  and the camera present, the position set by \<^verbatim>\<open>positionARShoe\<close> is the mapped midpoint
  \<open>sx = (centerX - 0.5) * 6\<close>, \<open>sy = - (centerY - 0.5) * 6\<close> of ankle and toe, plus
  0.2 times the ankle-to-toe vector taken in normalized coordinates with Y negated (the
  offset is not multiplied by 6), and the constant depth \<open>- 2\<close>.
\<close>

theorem placement_position:
  assumes "arShoeModel s = Some m" and "arCamera s \<noteq> None"
    and "selectFoot la ra lf rf = (Some ankle, Some toe, side)"
  shows "map_option position (arShoeModel (positionARShoe la ra lf rf s)) =
         Some \<lparr>vx = ((lm_x ankle + lm_x toe) / 2 - 0.5) * 6 + (lm_x toe - lm_x ankle) * 0.2,
               vy = - ((lm_y ankle + lm_y toe) / 2 - 0.5) * 6 + - (lm_y toe - lm_y ankle) * 0.2,
               vz = - 2\<rparr>"
  using positionARShoe_complete [OF assms] by simp

theorem placement_position_witness:
  "arShoeModel enteredSession \<noteq> None \<and> arCamera enteredSession \<noteq> None
   \<and> selectFoot None (Some (mkLandmark 0.3 0.5 0.9)) None (Some (mkLandmark 0.4 0.5 0.9))
       = (Some (mkLandmark 0.3 0.5 0.9), Some (mkLandmark 0.4 0.5 0.9), False)
   \<and> map_option position
       (arShoeModel (positionARShoe None (Some (mkLandmark 0.3 0.5 0.9)) None
                       (Some (mkLandmark 0.4 0.5 0.9)) enteredSession))
       = Some \<lparr>vx = - 0.88, vy = 0, vz = - 2\<rparr>"
  using placement_position [of enteredSession _ None "Some (mkLandmark 0.3 0.5 0.9)" None
          "Some (mkLandmark 0.4 0.5 0.9)" "mkLandmark 0.3 0.5 0.9" "mkLandmark 0.4 0.5 0.9" False]
  by (simp add: enteredSession_def selectFoot_def mkLandmark_def)

text \<open>
  The claim as the specification words it puts the offset in the mapped space, with the
  factor 6 of the midpoint.  For the right foot with ankle (0.3, 0.5) and toe (0.4, 0.5)
  that would give x = -0.78; the code gives x = -0.88.
\<close>

theorem placement_offset_counterexample:
  "map_option position
       (arShoeModel (positionARShoe None (Some (mkLandmark 0.3 0.5 0.9)) None
                       (Some (mkLandmark 0.4 0.5 0.9)) enteredSession))
     \<noteq> Some \<lparr>vx = ((0.3 + 0.4) / 2 - 0.5) * 6 + 0.2 * (0.4 - 0.3) * 6,
              vy = - ((0.5 + 0.5) / 2 - 0.5) * 6 - 0.2 * (0.5 - 0.5) * 6,
              vz = - 2\<rparr>"
  by (simp add: positionARShoe_def selectFoot_def enteredSession_def mkLandmark_def Let_def)

text \<open>
  Claim C6.  For a complete foot candidate with ankle-to-toe vector \<open>(\<Delta>x, \<Delta>y)\<close> the
  rotation about Z is \<open>- atan2 \<Delta>y \<Delta>x\<close>; the rotation about Y is \<open>\<pi>\<close> when the left
  foot is selected and 0 when the right foot is; the rotation about X is 0.
\<close>

theorem placement_rotation:
  assumes "arShoeModel s = Some m" and "arCamera s \<noteq> None"
    and "selectFoot la ra lf rf = (Some ankle, Some toe, isLeftFoot)"
  shows "map_option rotation (arShoeModel (positionARShoe la ra lf rf s)) =
         Some \<lparr>vx = 0, vy = (if isLeftFoot then pi else 0),
               vz = - Math_atan2 (lm_y toe - lm_y ankle) (lm_x toe - lm_x ankle)\<rparr>"
  using positionARShoe_complete [OF assms] by simp

theorem placement_rotation_witness:
  "map_option rotation
       (arShoeModel (positionARShoe (Some (mkLandmark 0.3 0.5 0.9)) None
                       (Some (mkLandmark 0.4 0.5 0.9)) None enteredSession))
       = Some \<lparr>vx = 0, vy = pi, vz = 0\<rparr>
   \<and> map_option rotation
       (arShoeModel (positionARShoe None (Some (mkLandmark 0.3 0.5 0.9)) None
                       (Some (mkLandmark 0.4 0.5 0.9)) enteredSession))
       = Some \<lparr>vx = 0, vy = 0, vz = 0\<rparr>"
  using placement_rotation [of enteredSession _ "Some (mkLandmark 0.3 0.5 0.9)" None
          "Some (mkLandmark 0.4 0.5 0.9)" None "mkLandmark 0.3 0.5 0.9" "mkLandmark 0.4 0.5 0.9" True]
        placement_rotation [of enteredSession _ None "Some (mkLandmark 0.3 0.5 0.9)" None
          "Some (mkLandmark 0.4 0.5 0.9)" "mkLandmark 0.3 0.5 0.9" "mkLandmark 0.4 0.5 0.9" False]
  by (simp add: enteredSession_def selectFoot_def mkLandmark_def Math_atan2_def)

text \<open>
  Claim C7.  For a complete foot candidate the three scale components are
  \<open>max 0.05 (min 0.15 (footLength * 2))\<close>, with \<open>footLength\<close> the Euclidean distance
  of ankle and toe, and that value lies in \<open>[0.05, 0.15]\<close>, also when ankle and toe
  coincide.
\<close>

theorem placement_scale:
  assumes "arShoeModel s = Some m" and "arCamera s \<noteq> None"
    and "selectFoot la ra lf rf = (Some ankle, Some toe, side)"
  shows "(let footLength = sqrt ((lm_x toe - lm_x ankle)\<^sup>2 + (lm_y toe - lm_y ankle)\<^sup>2);
              d = max 0.05 (min 0.15 (footLength * 2))
          in map_option scale3 (arShoeModel (positionARShoe la ra lf rf s))
               = Some \<lparr>vx = d, vy = d, vz = d\<rparr>
             \<and> 0.05 \<le> d \<and> d \<le> 0.15)"
proof -
  define d where "d = max 0.05 (min 0.15 (sqrt ((lm_x toe - lm_x ankle)\<^sup>2
                                              + (lm_y toe - lm_y ankle)\<^sup>2) * 2))"
  have "map_option scale3 (arShoeModel (positionARShoe la ra lf rf s))
          = Some \<lparr>vx = d, vy = d, vz = d\<rparr>"
    using positionARShoe_complete [OF assms] by (simp add: Let_def d_def)
  moreover have "0.05 \<le> d" "d \<le> 0.15"
    unfolding d_def by simp_all
  ultimately show ?thesis
    by (simp add: Let_def d_def)
qed

theorem placement_scale_witness:
  "map_option scale3
       (arShoeModel (positionARShoe None (Some (mkLandmark 0.3 0.5 0.9)) None
                       (Some (mkLandmark 0.3 0.5 0.8)) enteredSession))
       = Some \<lparr>vx = 0.05, vy = 0.05, vz = 0.05\<rparr>"
  using placement_scale [of enteredSession _ None "Some (mkLandmark 0.3 0.5 0.9)" None
          "Some (mkLandmark 0.3 0.5 0.8)" "mkLandmark 0.3 0.5 0.9" "mkLandmark 0.3 0.5 0.8" False]
  by (simp add: enteredSession_def selectFoot_def mkLandmark_def Let_def)

text \<open>
  Claim C8.  The placement is a function of the selected ankle, toe and side alone: two
  calls that select the same ankle, toe and side leave the tracked object with the same
  position, rotation, scale and visibility, whatever the object's fields and the rest of
  the state were before each call (the object and the camera being present).
\<close>

theorem placement_pure:
  assumes "arShoeModel s1 \<noteq> None" and "arCamera s1 \<noteq> None"
    and "arShoeModel s2 \<noteq> None" and "arCamera s2 \<noteq> None"
    and "selectFoot la ra lf rf = (Some ankle, Some toe, side)"
    and "selectFoot la' ra' lf' rf' = (Some ankle, Some toe, side)"
  shows "arShoeModel (positionARShoe la ra lf rf s1) = arShoeModel (positionARShoe la' ra' lf' rf' s2)"
proof -
  obtain m1 m2 where "arShoeModel s1 = Some m1" "arShoeModel s2 = Some m2"
    using assms(1,3) by auto
  then show ?thesis
    using positionARShoe_complete [OF _ assms(2) assms(5)]
          positionARShoe_complete [OF _ assms(4) assms(6)] by simp
qed

theorem placement_pure_witness:
  "arShoeModel (positionARShoe None (Some (mkLandmark 0.3 0.5 0.9)) None
                       (Some (mkLandmark 0.4 0.5 0.9)) enteredSession)
   = arShoeModel (positionARShoe (Some (mkLandmark 0.7 0.7 0.9)) (Some (mkLandmark 0.3 0.5 0.9)) None
                       (Some (mkLandmark 0.4 0.5 0.9))
                    (positionARShoe None None None None enteredSession))"
  using placement_pure [of enteredSession "positionARShoe None None None None enteredSession"
          None "Some (mkLandmark 0.3 0.5 0.9)" None "Some (mkLandmark 0.4 0.5 0.9)"
          "mkLandmark 0.3 0.5 0.9" "mkLandmark 0.4 0.5 0.9" False
          "Some (mkLandmark 0.7 0.7 0.9)" "Some (mkLandmark 0.3 0.5 0.9)" None "Some (mkLandmark 0.4 0.5 0.9)"]
  by (simp add: enteredSession_def selectFoot_def mkLandmark_def positionARShoe_simps
        positionARShoe_incomplete)

section \<open>Independence from the side that is not selected\<close>

text \<open>
  Claim C10.  Two frames of the same active session in which the right ankle and the
  right toe are the same and pass validation leave the tracked object with the same
  position, rotation, scale and visibility, whatever their left-side entries (and their
  heels) are.
\<close>

theorem unselected_side_noninterference:
  assumes "activeSession s"
    and "poseLandmarks r = Some ls" and "33 \<le> length ls"
    and "poseLandmarks r' = Some ls'" and "33 \<le> length ls'"
    and "ls ! 28 = ls' ! 28" and "ls ! 32 = ls' ! 32"
    and "visibleLandmark ls 28 \<noteq> None" and "visibleLandmark ls 32 \<noteq> None"
  shows "arShoeModel (onPoseResults r s) = arShoeModel (onPoseResults r' s)"
proof -
  have ra: "visibleLandmark ls' 28 = visibleLandmark ls 28"
    and rf: "visibleLandmark ls' 32 = visibleLandmark ls 32"
    using assms(3,5,6,7) by (simp_all add: visibleLandmark_def)
  obtain a f where a: "visibleLandmark ls 28 = Some a" and f: "visibleLandmark ls 32 = Some f"
    using assms(8,9) by auto
  have "arShoeModel (onPoseResults r s) =
        arShoeModel (positionARShoe (visibleLandmark ls 27) (Some a) (visibleLandmark ls 31) (Some f) s)"
    using onPoseResults_model_complete [OF assms(1,2,3)] a f by simp
  moreover have "arShoeModel (onPoseResults r' s) =
        arShoeModel (positionARShoe (visibleLandmark ls' 27) (Some a) (visibleLandmark ls' 31) (Some f) s)"
    using onPoseResults_model_complete [OF assms(1,4,5)] a f ra rf by simp
  ultimately show ?thesis
    using positionARShoe_right_complete by simp
qed

theorem unselected_side_noninterference_witness:
  "arShoeModel (onPoseResults (footFrame None (Some (mkLandmark 0.3 0.5 0.9)) None None
                                 None (Some (mkLandmark 0.4 0.5 0.9))) enteredSession)
   = arShoeModel (onPoseResults (footFrame (Some (mkLandmark 0.7 0.6 0.9)) (Some (mkLandmark 0.3 0.5 0.9))
                                   (Some (mkLandmark 0.7 0.65 0.9)) None
                                   (Some (mkLandmark 0.8 0.6 0.9)) (Some (mkLandmark 0.4 0.5 0.9)))
                    enteredSession)"
  using unselected_side_noninterference [OF activeSession_enteredSession,
          of "footFrame None (Some (mkLandmark 0.3 0.5 0.9)) None None
                                 None (Some (mkLandmark 0.4 0.5 0.9))"
             "footLandmarks None (Some (mkLandmark 0.3 0.5 0.9)) None None
                                 None (Some (mkLandmark 0.4 0.5 0.9))"
             "footFrame (Some (mkLandmark 0.7 0.6 0.9)) (Some (mkLandmark 0.3 0.5 0.9))
                                   (Some (mkLandmark 0.7 0.65 0.9)) None
                                   (Some (mkLandmark 0.8 0.6 0.9)) (Some (mkLandmark 0.4 0.5 0.9))"
             "footLandmarks (Some (mkLandmark 0.7 0.6 0.9)) (Some (mkLandmark 0.3 0.5 0.9))
                                   (Some (mkLandmark 0.7 0.65 0.9)) None
                                   (Some (mkLandmark 0.8 0.6 0.9)) (Some (mkLandmark 0.4 0.5 0.9))"]
  by (simp add: footFrame_def visibleLandmark_footLandmarks length_footLandmarks mkLandmark_def)
     (simp add: footLandmarks_def nth_append)

section \<open>Frames with a partial foot\<close>

text \<open>
  Claim C1 says that a frame whose selected side has only one of ankle and toe leaves the
  tracked object hidden, and that the object is visible after a frame only if that
  frame has a complete foot.  The branch of lines 947-952 (two of three landmarks on a
  side, no side complete) updates status and overlay and does not touch the object's
  \<^verbatim>\<open>visible\<close> flag, unlike the branches of lines 961-964 and 972-975.  So after a frame
  that locked the right foot, a frame with right ankle and right heel only (toe below the
  threshold) shows the ``show ankle and toes'' status while the object stays visible.
\<close>

theorem partial_frame_keeps_object_visible:
  "(let ankle = mkLandmark 0.5 0.6 0.9; toe = mkLandmark 0.55 0.62 0.8;
        heel = mkLandmark 0.48 0.63 0.9; weakToe = mkLandmark 0.55 0.62 0.3;
        lockedFrame = footFrame None (Some ankle) None None None (Some toe);
        partialFrame = footFrame None (Some ankle) None (Some heel) None (Some weakToe);
        s1 = onPoseResults lockedFrame enteredSession;
        s2 = onPoseResults partialFrame s1
    in map_option visible (arShoeModel s1) = Some True
     \<and> visibleLandmark (the (poseLandmarks partialFrame)) 28 = Some ankle
     \<and> visibleLandmark (the (poseLandmarks partialFrame)) 32 = None
     \<and> el_status s2 = Some \<lparr>textContent = ''Feet detected - show ankle and toes clearly ''
                                             @ emoji_footprints,
                             className = ''ar-status detecting''\<rparr>
     \<and> map_option visible (arShoeModel s2) = Some True)"
proof -
  define ankle where "ankle = mkLandmark 0.5 0.6 0.9"
  define toe where "toe = mkLandmark 0.55 0.62 0.8"
  define heel where "heel = mkLandmark 0.48 0.63 0.9"
  define weakToe where "weakToe = mkLandmark 0.55 0.62 0.3"
  define lockedLs where "lockedLs = footLandmarks None (Some ankle) None None None (Some toe)"
  define partialLs where "partialLs = footLandmarks None (Some ankle) None (Some heel) None (Some weakToe)"
  define s1 where "s1 = onPoseResults \<lparr>poseLandmarks = Some lockedLs\<rparr> enteredSession"
  define s2 where "s2 = onPoseResults \<lparr>poseLandmarks = Some partialLs\<rparr> s1"
  have vis: "visibility ankle > 0.5" "visibility toe > 0.5" "visibility heel > 0.5"
      "\<not> visibility weakToe > 0.5"
    by (simp_all add: ankle_def toe_def heel_def weakToe_def mkLandmark_def)
  have lockedV: "visibleLandmark lockedLs 27 = None" "visibleLandmark lockedLs 28 = Some ankle"
      "visibleLandmark lockedLs 31 = None" "visibleLandmark lockedLs 32 = Some toe"
    using vis by (simp_all add: lockedLs_def visibleLandmark_footLandmarks)
  have partialV: "visibleLandmark partialLs 27 = None" "visibleLandmark partialLs 28 = Some ankle"
      "visibleLandmark partialLs 29 = None" "visibleLandmark partialLs 30 = Some heel"
      "visibleLandmark partialLs 31 = None" "visibleLandmark partialLs 32 = None"
    using vis by (simp_all add: partialLs_def visibleLandmark_footLandmarks)
  have len: "33 \<le> length lockedLs" "33 \<le> length partialLs"
    by (simp_all add: lockedLs_def partialLs_def length_footLandmarks)
  have act1: "activeSession s1"
    by (simp add: s1_def activeSession_onPoseResults activeSession_enteredSession)
  have "arShoeModel s1 = arShoeModel (positionARShoe None (Some ankle) None (Some toe) enteredSession)"
    unfolding s1_def
    using onPoseResults_model_complete [OF activeSession_enteredSession _ len(1),
            of "\<lparr>poseLandmarks = Some lockedLs\<rparr>"] lockedV
    by simp
  then have m1: "map_option visible (arShoeModel s1) = Some True"
    using positionARShoe_complete [of enteredSession _ None "Some ankle" None "Some toe" ankle toe False]
    by (simp add: enteredSession_def selectFoot_def)
  have st1: "el_status s1 \<noteq> None"
    unfolding s1_def
    using status_feetLocked [OF activeSession_enteredSession _ len(1),
            of "\<lparr>poseLandmarks = Some lockedLs\<rparr>"] lockedV
    by (simp add: el_status_enteredSession)
  have m2: "arShoeModel s2 = arShoeModel s1"
    unfolding s2_def
    using onPoseResults_model_partial [OF act1 _ len(2), of "\<lparr>poseLandmarks = Some partialLs\<rparr>"]
      partialV
    by (simp add: countVisible_def)
  have st2: "el_status s2 = Some \<lparr>textContent = ''Feet detected - show ankle and toes clearly ''
                                             @ emoji_footprints,
                             className = ''ar-status detecting''\<rparr>"
    unfolding s2_def
    using status_feetPartial [OF act1 _ len(2), of "\<lparr>poseLandmarks = Some partialLs\<rparr>"]
      partialV st1
    by (auto simp add: countVisible_def)
  show ?thesis
    unfolding Let_def footFrame_def
    using m1 m2 st2 partialV
    by (simp add: s1_def s2_def lockedLs_def partialLs_def ankle_def toe_def heel_def weakToe_def)
qed

theorem partial_frame_keeps_object_visible_witness:
  "map_option visible
     (arShoeModel
        (onPoseResults
           (footFrame None (Some (mkLandmark 0.5 0.6 0.9)) None (Some (mkLandmark 0.48 0.63 0.9))
              None (Some (mkLandmark 0.55 0.62 0.3)))
           (onPoseResults
              (footFrame None (Some (mkLandmark 0.5 0.6 0.9)) None None
                 None (Some (mkLandmark 0.55 0.62 0.8)))
              enteredSession))) = Some True"
  using partial_frame_keeps_object_visible [unfolded Let_def] by blast

section \<open>Session exit\<close>

text \<open>
  Claim C9 says that after exit the tracked object is hidden.  \<^verbatim>\<open>exitARMode\<close> does not
  write the object: an object that was visible keeps its \<^verbatim>\<open>visible\<close> flag.
\<close>

theorem session_exit_object_counterexample:
  "map_option visible (arShoeModel (exitARMode enteredSession)) = Some True"
  by (simp add: exitARMode_simps) (simp add: enteredSession_def)

text \<open>
  Claim C9, as the code has it.  For every state at exit: every track of the stream that
  \<^verbatim>\<open>videoStream\<close> refers to is stopped and the reference is dropped; the tracked object
  is left as it was, and the AR container element (when the page has it) gets the class
  \<^verbatim>\<open>hidden\<close>; the status element (when the page has it) shows ``Looking for feet...''
  with an empty type; the session is inactive; and any sequence of frame callbacks
  delivered afterwards leaves the whole state unchanged.
\<close>

theorem session_exit:
  "(\<forall>h. videoStream s = Some h \<longrightarrow> list_all (\<lambda>track. track = Ended) (streams (exitARMode s) h))
   \<and> videoStream (exitARMode s) = None
   \<and> arShoeModel (exitARMode s) = arShoeModel s
   \<and> (\<forall>c. el_arContainer s = Some c
          \<longrightarrow> el_arContainer (exitARMode s) = Some (insert ''hidden'' c))
   \<and> (\<forall>e. el_status s = Some e
          \<longrightarrow> el_status (exitARMode s)
              = Some \<lparr>textContent = ''Looking for feet...'', className = ''ar-status ''\<rparr>)
   \<and> \<not> isARMode (exitARMode s)
   \<and> (\<forall>frames. fold onPoseResults frames (exitARMode s) = exitARMode s)"
proof (intro conjI allI impI)
  fix h assume "videoStream s = Some h"
  then show "list_all (\<lambda>track. track = Ended) (streams (exitARMode s) h)"
    by (simp add: exitARMode_simps list_all_iff)
next
  show "videoStream (exitARMode s) = None" by (simp add: exitARMode_simps)
next
  show "arShoeModel (exitARMode s) = arShoeModel s" by (simp add: exitARMode_simps)
next
  fix c assume "el_arContainer s = Some c"
  then show "el_arContainer (exitARMode s) = Some (insert ''hidden'' c)"
    by (simp add: exitARMode_simps)
next
  fix e assume "el_status s = Some e"
  then show "el_status (exitARMode s)
      = Some \<lparr>textContent = ''Looking for feet...'', className = ''ar-status ''\<rparr>"
    by (simp add: exitARMode_simps)
next
  show "\<not> isARMode (exitARMode s)" by (simp add: exitARMode_simps)
next
  fix frames
  show "fold onPoseResults frames (exitARMode s) = exitARMode s"
    by (rule fold_onPoseResults_inactive) (simp add: exitARMode_simps)
qed

theorem session_exit_witness:
  "videoStream enteredSession = Some 0
   \<and> streams (exitARMode enteredSession) 0 = [Ended]
   \<and> videoStream (exitARMode enteredSession) = None
   \<and> arShoeModel (exitARMode enteredSession) = arShoeModel enteredSession
   \<and> el_arContainer (exitARMode enteredSession) = Some {''hidden''}
   \<and> el_status (exitARMode enteredSession)
       = Some \<lparr>textContent = ''Looking for feet...'', className = ''ar-status ''\<rparr>
   \<and> \<not> isARMode (exitARMode enteredSession)
   \<and> fold onPoseResults
        [footFrame None (Some (mkLandmark 0.5 0.6 0.9)) None None None (Some (mkLandmark 0.55 0.62 0.8)),
         \<lparr>poseLandmarks = None\<rparr>]
        (exitARMode enteredSession) = exitARMode enteredSession"
proof -
  have vs: "videoStream enteredSession = Some 0"
    and ct: "el_arContainer enteredSession = Some {}"
    and tr: "streams enteredSession 0 = [Live]"
    by (simp_all add: enteredSession_def)
  have "streams (exitARMode enteredSession) 0 = map (\<lambda>track. Ended) (streams enteredSession 0)"
    by (simp add: exitARMode_simps vs)
  then have ended: "streams (exitARMode enteredSession) 0 = [Ended]"
    by (simp add: tr)
  note se = session_exit [of enteredSession]
  have c2: "videoStream (exitARMode enteredSession) = None"
    and c3: "arShoeModel (exitARMode enteredSession) = arShoeModel enteredSession"
    and c6: "\<not> isARMode (exitARMode enteredSession)"
    using se by blast+
  have c4: "el_arContainer (exitARMode enteredSession) = Some {''hidden''}"
    using se ct by blast
  have c5: "el_status (exitARMode enteredSession)
       = Some \<lparr>textContent = ''Looking for feet...'', className = ''ar-status ''\<rparr>"
    using se el_status_enteredSession by blast
  have c7: "fold onPoseResults
        [footFrame None (Some (mkLandmark 0.5 0.6 0.9)) None None None (Some (mkLandmark 0.55 0.62 0.8)),
         \<lparr>poseLandmarks = None\<rparr>]
        (exitARMode enteredSession) = exitARMode enteredSession"
    using se by blast
  show ?thesis
    using vs ended c2 c3 c4 c5 c6 c7 by (intro conjI)
qed

end
